theory Spec2Isabelle
  imports Complex_Main
begin

section \<open>The capture-to-result pipeline of the IALab component\<close>

text \<open>
  The component \<open>IALab\<close> keeps eleven React state variables and one handler,
  \<open>handleCapture\<close>, that runs the whole pipeline: optimise both photos, load them as
  images, validate their quality, detect landmarks, compute metrics and texts, call the
  remote simulation with retries, and store the result.

  The model below follows that code. State variables are a record that every handler
  takes and returns; everything the handler says to the outside (toasts, log lines,
  analytics, remote calls, waits) is a list of events in the order the code produces
  them; every collaborator that is not part of the component (the browser's image
  decoder and canvas, the landmark detector, the metrics library, the remote function)
  is a field of an environment record. JavaScript numbers that the code only copies
  or compares with literals are rationals.
\<close>

subsection \<open>Data\<close>

datatype step = Hero | Capture | Loading | Contact | Results

type_synonym json = string
type_synonym landmark = "rat \<times> rat \<times> rat"

record gingival_t =
  g_mm :: rat
  g_class :: string

record midline_t =
  m_mm :: rat
  m_side :: string

record coincidence_t =
  deviation :: rat
  status :: string

record proportions_t =
  upperThird :: rat
  middleThird :: rat
  lowerThird :: rat
  isBalanced :: bool

record metrics_t =
  smileArc :: string
  gingival :: gingival_t
  midline :: midline_t
  buccalRatio :: rat
  facialMidline :: midline_t
  midlineCoincidence :: coincidence_t
  facialProportions :: proportions_t

text \<open>The interfaces \<open>SimulationData\<close> and \<open>ContactData\<close>; an optional field is an option.\<close>

record simulation_data =
  facialAnalysis :: "json option"
  qualityScore :: "rat option"
  warnings :: "string list option"

record contact_data =
  email :: string
  name :: "string option"
  phone :: "string option"

text \<open>
  What the remote function may send back as \<open>data\<close>: the component reads the five
  fields below and nothing else. A truthy \<open>data\<close> that is not an object has none of
  them, which is the record with every field \<open>None\<close>.
\<close>

record payload =
  p_simulatedImage :: "string option"
  p_idealImage :: "string option"
  p_facialAnalysis :: "json option"
  p_qualityScore :: "rat option"
  p_warnings :: "string list option"

text \<open>
  A thrown value. The outer handler distinguishes instances of \<open>Error\<close>, whose message
  it shows, from any other thrown value (the event object an image's \<open>onerror\<close>
  rejects with, for one).
\<close>

datatype thrown = ErrorInstance string | OtherValue

text \<open>
  One settled call of \<open>supabase.functions.invoke\<close>: \<open>Failed\<close> is a call that threw or
  returned a truthy \<open>error\<close>, \<open>Empty\<close> one with no error and a falsy \<open>data\<close>,
  \<open>Data\<close> one with no error and a truthy \<open>data\<close>.
\<close>

datatype response = Failed thrown | Empty | Data payload

record request =
  imageBase64 :: string
  rq_metrics :: metrics_t
  rq_faceAnalysis :: json
  rq_recommendations :: json

text \<open>
  The two values a \<open>handleCapture\<close> closure reads from the render that created it.
  \<open>useCallback\<close> lists both as dependencies, so the handler a render hands to the
  capture widget carries that render's values; a closure that is called later (the
  retry action of a toast calls the closure that raised the toast) still carries the
  values of its own render.
\<close>

record captured =
  c_isProcessing :: bool
  c_retryCount :: nat

datatype level = Info | Warning | Failure | Success

text \<open>
  The texts shown to the user, in source order:
  \<^item> \<open>AlreadyProcessing\<close>: "Ya se esta procesando una imagen. Por favor espere."
  \<^item> \<open>LowResolution\<close>: "La imagen tiene una resolucion muy baja. ..."
  \<^item> \<open>BadAspectRatio\<close>: "La proporcion de la imagen no es optima. ..."
  \<^item> \<open>SimulationNotAvailable\<close>: "La simulacion automatica no esta disponible en este momento. ..."
  \<^item> \<open>ErrorWith m\<close>: the template "Error: " followed by \<open>m\<close>
  \<^item> \<open>GiveUp\<close>: "No se pudo procesar la imagen despues de varios intentos. ..."
  \<^item> \<open>AnalysisCompleted\<close>: "Analisis completado! Revise sus resultados a continuacion."
\<close>

datatype message =
    AlreadyProcessing
  | LowResolution
  | BadAspectRatio
  | SimulationNotAvailable
  | ErrorWith string
  | GiveUp
  | AnalysisCompleted

text \<open>The action button of a toast: "Reintentar", with the closure and photos it holds.\<close>

datatype action = Retry captured string string

datatype log_line =
    QualityValidationFailed
  | MetricsCalculated
  | LandmarkError thrown
  | SimulationAttemptFailed nat thrown
  | SimulationFailedUsingOriginal
  | ErrorProcessingSmile thrown

text \<open>
  One remote call of the retry loop: its loop index, the time it began (milliseconds
  after the abort timer was armed), whether the abort signal handed to it was already
  triggered at that time, what it sent, how long it took to settle and how it settled.
\<close>

record call =
  i_attempt :: nat
  i_begun :: nat
  i_aborted :: bool
  i_request :: request
  i_latency :: nat
  i_response :: response

text \<open>\<open>Sleep ms\<close> is a \<open>setTimeout\<close> wait of \<open>ms\<close> milliseconds.\<close>

datatype event =
    Toast level message "action option"
  | Logger log_line
  | TrackPhotosCaptured bool nat
  | TrackContactSubmitted string bool "rat option"
  | Invoke call
  | Sleep nat

record app_state =
  step :: step
  restImage :: string
  smileImage :: string
  idealImage :: string
  analysis :: string
  metrics :: "metrics_t option"
  landmarks :: "landmark list option"
  contactData :: "contact_data option"
  simulationData :: "simulation_data option"
  isProcessing :: bool
  retryCount :: nat

text \<open>
  The collaborators.
  \<^item> \<open>load_image src\<close>: setting \<open>src\<close> on a new \<open>Image\<close> fires \<open>onload\<close> with the
    image's width and height, or \<open>onerror\<close> (\<open>None\<close>).
  \<^item> \<open>canvas_2d\<close>: \<open>getContext('2d')\<close> returns a context.
  \<^item> \<open>toDataURL src w h\<close>: the JPEG data URL of the canvas after the image \<open>src\<close> was
    drawn at \<open>w\<close> by \<open>h\<close> with quality 0.85. Drawing and encoding are taken to return.
  \<^item> \<open>import_metrics\<close>: the dynamic import of the metrics library, \<open>Some e\<close> when it
    rejects with \<open>e\<close>. The library is not part of the component: its four functions
    are parameters, and only \<open>computeMetrics\<close>, called inside a \<open>try\<close>, is given a
    throwing outcome.
  \<^item> \<open>faceLandmarker\<close>: the content of \<open>faceLandmarkerRef\<close>, \<open>None\<close> when the detector
    never initialised; \<open>detect\<close> throws or returns the list \<open>faceLandmarks\<close>, one
    landmark list per face (an absent list is the empty one).
  \<^item> \<open>prep_ms\<close>: the time between arming the abort timer and the first remote call.
  \<^item> \<open>invoke attempt rq t\<close>: the remote call of loop index \<open>attempt\<close>, begun at time
    \<open>t\<close>: how long it takes to settle and how it settles.
\<close>

record env =
  load_image :: "string \<Rightarrow> (nat \<times> nat) option"
  canvas_2d :: bool
  toDataURL :: "string \<Rightarrow> rat \<Rightarrow> rat \<Rightarrow> string"
  import_metrics :: "thrown option"
  faceLandmarker :: "(string \<Rightarrow> thrown + landmark list list) option"
  computeMetrics :: "landmark list \<Rightarrow> landmark list \<Rightarrow> nat \<Rightarrow> nat \<Rightarrow> thrown + metrics_t"
  analyzeFaceCharacteristics :: "metrics_t \<Rightarrow> json"
  generateSmileRecommendations :: "json \<Rightarrow> metrics_t \<Rightarrow> json"
  generateAnalysisText :: "json \<Rightarrow> metrics_t \<Rightarrow> json \<Rightarrow> string"
  prep_ms :: nat
  invoke :: "nat \<Rightarrow> request \<Rightarrow> nat \<Rightarrow> nat \<times> response"

subsection \<open>Constants\<close>

definition MAX_RETRY_ATTEMPTS :: nat where
  "MAX_RETRY_ATTEMPTS = 3"

definition MAX_IMAGE_SIZE :: rat where
  "MAX_IMAGE_SIZE = 2048"

text \<open>The delay of the abort timer, in milliseconds.\<close>

definition ABORT_TIMEOUT :: nat where
  "ABORT_TIMEOUT = 30000"

text \<open>A string the code tests for truth: present and not empty.\<close>

definition truthy :: "string option \<Rightarrow> bool" where
  "truthy v = (case v of None \<Rightarrow> False | Some s \<Rightarrow> s \<noteq> [])"

subsection \<open>optimizeImage and validateImageQuality\<close>

text \<open>
  \<open>optimizeImage\<close> (lines 145 to 179) and \<open>validateImageQuality\<close> (lines 184 to
  198). The promise of \<open>optimizeImage\<close> has three ways to settle, each a \<open>resolve\<close>:
  \<open>onerror\<close>, \<open>onload\<close> without a canvas context, \<open>onload\<close> with one. The divisions
  are JavaScript's: a zero divisor gives infinity, which \<open>Math.min\<close> discards.
\<close>

definition optimizeImage :: "env \<Rightarrow> string \<Rightarrow> thrown + string" where
  "optimizeImage e base64 =
     (case load_image e base64 of
        None \<Rightarrow> Inr base64
      | Some (w, h) \<Rightarrow>
          if \<not> canvas_2d e then Inr base64
          else
            let width = (of_nat w :: rat);
                height = (of_nat h :: rat);
                scale = (if h = 0 then MAX_IMAGE_SIZE / width
                         else if w = 0 then MAX_IMAGE_SIZE / height
                         else min (MAX_IMAGE_SIZE / width) (MAX_IMAGE_SIZE / height))
            in if width > MAX_IMAGE_SIZE \<or> height > MAX_IMAGE_SIZE
               then Inr (toDataURL e base64 (width * scale) (height * scale))
               else Inr (toDataURL e base64 width height))"

definition validateImageQuality :: "nat \<times> nat \<Rightarrow> bool \<times> event list" where
  "validateImageQuality img =
     (case img of (w, h) \<Rightarrow>
        if w < 640 \<or> h < 480 then (False, [Toast Warning LowResolution None])
        else
          let aspectRatio = (of_nat w :: rat) / of_nat h
          in if aspectRatio < 1 / 2 \<or> aspectRatio > 2
             then (True, [Toast Warning BadAspectRatio None])
             else (True, []))"

subsection \<open>Landmarks and metrics\<close>

text \<open>The literal of the \<open>catch\<close> branch of the landmark block (lines 304 to 317).\<close>

definition fallback_on_error :: metrics_t where
  "fallback_on_error =
     \<lparr> smileArc = ''consonante'',
       gingival = \<lparr> g_mm = 1, g_class = ''media'' \<rparr>,
       midline = \<lparr> m_mm = 0, m_side = ''centrado'' \<rparr>,
       buccalRatio = 8 / 10,
       facialMidline = \<lparr> m_mm = 0, m_side = ''centrado'' \<rparr>,
       midlineCoincidence = \<lparr> deviation = 0, status = ''coincidente'' \<rparr>,
       facialProportions =
         \<lparr> upperThird = 33 / 100, middleThird = 34 / 100, lowerThird = 33 / 100,
           isBalanced = True \<rparr> \<rparr>"

text \<open>
  The literal of the \<open>else\<close> branch, taken when there is no landmarker (lines 321 to
  334).
\<close>

definition fallback_no_landmarker :: metrics_t where
  "fallback_no_landmarker =
     \<lparr> smileArc = ''consonante'',
       gingival = \<lparr> g_mm = 1, g_class = ''media'' \<rparr>,
       midline = \<lparr> m_mm = 0, m_side = ''centrado'' \<rparr>,
       buccalRatio = 8 / 10,
       facialMidline = \<lparr> m_mm = 0, m_side = ''centrado'' \<rparr>,
       midlineCoincidence = \<lparr> deviation = 0, status = ''coincidente'' \<rparr>,
       facialProportions =
         \<lparr> upperThird = 33 / 100, middleThird = 34 / 100, lowerThird = 33 / 100,
           isBalanced = True \<rparr> \<rparr>"

definition no_face_smile :: thrown where
  "no_face_smile = ErrorInstance ''No se detecto rostro en la imagen de sonrisa.''"

definition no_face_rest :: thrown where
  "no_face_rest = ErrorInstance ''No se detecto rostro en la imagen de reposo.''"

text \<open>
  The landmark block of \<open>handleCapture\<close> (lines 271 to 335): the values of \<open>smileLandmarks\<close> and
  \<open>calculatedMetrics\<close> after it, and what it logged. \<open>smileLandmarks\<close> is assigned
  before \<open>computeMetrics\<close> is called, so it keeps its value when that call throws.
\<close>

definition detectLandmarks ::
  "env \<Rightarrow> string \<Rightarrow> string \<Rightarrow> nat \<Rightarrow> nat \<Rightarrow> landmark list option \<times> metrics_t \<times> event list" where
  "detectLandmarks e smileImg restImg imgW imgH =
     (case faceLandmarker e of
        None \<Rightarrow> (None, fallback_no_landmarker, [])
      | Some detect \<Rightarrow>
          (case detect smileImg of
             Inl err \<Rightarrow> (None, fallback_on_error, [Logger (LandmarkError err)])
           | Inr smileFaces \<Rightarrow>
               (case detect restImg of
                  Inl err \<Rightarrow> (None, fallback_on_error, [Logger (LandmarkError err)])
                | Inr restFaces \<Rightarrow>
                    (case smileFaces of
                       [] \<Rightarrow> (None, fallback_on_error, [Logger (LandmarkError no_face_smile)])
                     | smileLm # _ \<Rightarrow>
                         (case restFaces of
                            [] \<Rightarrow> (None, fallback_on_error, [Logger (LandmarkError no_face_rest)])
                          | restLm # _ \<Rightarrow>
                              (case computeMetrics e restLm smileLm imgW imgH of
                                 Inl err \<Rightarrow>
                                   (Some smileLm, fallback_on_error, [Logger (LandmarkError err)])
                               | Inr m \<Rightarrow> (Some smileLm, m, [Logger MetricsCalculated])))))))"

subsection \<open>The simulation retry loop\<close>

text \<open>
  The \<open>for\<close> loop over \<open>attempt\<close> (lines 350 to 375). The result is the value of \<open>simulationResult\<close> when
  the loop ends, the events of the loop, and the time at which it ends. The abort
  signal is handed to each call and read nowhere else; \<open>lastError\<close> is written and
  never read, and is left out.
\<close>

function simulate_loop ::
  "env \<Rightarrow> request \<Rightarrow> nat \<Rightarrow> nat \<Rightarrow> payload option \<times> event list \<times> nat" where
  "simulate_loop e rq attempt now =
     (if attempt < MAX_RETRY_ATTEMPTS then
        (case invoke e attempt rq now of (latency, r) \<Rightarrow>
           let ev = Invoke \<lparr> i_attempt = attempt, i_begun = now,
                               i_aborted = (ABORT_TIMEOUT \<le> now), i_request = rq,
                               i_latency = latency, i_response = r \<rparr>;
               settled = now + latency
           in (case r of
                 Data d \<Rightarrow> (Some d, [ev], settled)
               | Empty \<Rightarrow>
                   (case simulate_loop e rq (attempt + 1) settled of
                      (res, evs, t) \<Rightarrow> (res, ev # evs, t))
               | Failed err \<Rightarrow>
                   if attempt < MAX_RETRY_ATTEMPTS - 1 then
                     (case simulate_loop e rq (attempt + 1) (settled + 1000 * (attempt + 1)) of
                        (res, evs, t) \<Rightarrow>
                          (res,
                           ev # Logger (SimulationAttemptFailed (attempt + 1) err)
                             # Sleep (1000 * (attempt + 1)) # evs,
                           t))
                   else
                     (case simulate_loop e rq (attempt + 1) settled of
                        (res, evs, t) \<Rightarrow>
                          (res, ev # Logger (SimulationAttemptFailed (attempt + 1) err) # evs,
                           t))))
      else (None, [], now))"
  by pat_completeness auto
termination
  by (relation "measure (\<lambda>(e, rq, attempt, now). MAX_RETRY_ATTEMPTS - attempt)") auto

declare simulate_loop.simps [simp del]

subsection \<open>handleCapture\<close>

text \<open>
  The body of the outer \<open>try\<close> up to the end of the retry loop (lines 230 to 375),
  in the order of the source: optimise both photos, import the metrics library, load
  both images, validate both, detect landmarks, derive analysis, recommendations and
  text, run the retry loop. The result is either the value
  thrown to the outer \<open>catch\<close>, or the local variables the rest of the handler uses.
\<close>

record outcome =
  o_optimizedSmile :: string
  o_calculatedMetrics :: metrics_t
  o_analysisText :: string
  o_smileLandmarks :: "landmark list option"
  o_simulationResult :: "payload option"
  o_events :: "event list"
  o_finished :: nat

definition pipeline :: "env \<Rightarrow> string \<Rightarrow> string \<Rightarrow> thrown + outcome" where
  "pipeline e rest smile =
     (case optimizeImage e rest of
        Inl err \<Rightarrow> Inl err
      | Inr optimizedRest \<Rightarrow>
     (case optimizeImage e smile of
        Inl err \<Rightarrow> Inl err
      | Inr optimizedSmile \<Rightarrow>
     (case import_metrics e of
        Some err \<Rightarrow> Inl err
      | None \<Rightarrow>
     (case load_image e optimizedSmile of
        None \<Rightarrow> Inl OtherValue
      | Some smileImg \<Rightarrow>
     (case load_image e optimizedRest of
        None \<Rightarrow> Inl OtherValue
      | Some restImg \<Rightarrow>
     (case validateImageQuality smileImg of (smileValid, ev1) \<Rightarrow>
     (case validateImageQuality restImg of (restValid, ev2) \<Rightarrow>
     (case detectLandmarks e optimizedSmile optimizedRest (fst smileImg) (snd smileImg) of
        (smileLandmarks, calculatedMetrics, ev4) \<Rightarrow>
     (let ev3 = (if \<not> smileValid \<or> \<not> restValid then [Logger QualityValidationFailed] else []);
          faceAnalysis = analyzeFaceCharacteristics e calculatedMetrics;
          recommendations = generateSmileRecommendations e faceAnalysis calculatedMetrics;
          analysisText = generateAnalysisText e faceAnalysis calculatedMetrics recommendations;
          rq = \<lparr> imageBase64 = optimizedSmile, rq_metrics = calculatedMetrics,
                 rq_faceAnalysis = faceAnalysis, rq_recommendations = recommendations \<rparr>
      in (case simulate_loop e rq 0 (prep_ms e) of (simulationResult, ev5, t) \<Rightarrow>
            Inr \<lparr> o_optimizedSmile = optimizedSmile,
                  o_calculatedMetrics = calculatedMetrics,
                  o_analysisText = analysisText,
                  o_smileLandmarks = smileLandmarks,
                  o_simulationResult = simulationResult,
                  o_events = ev1 @ ev2 @ ev3 @ ev4 @ ev5,
                  o_finished = t \<rparr>))))))))))"

text \<open>The test \<open>simulationResult?.simulatedImage\<close>.\<close>

definition has_simulatedImage :: "payload option \<Rightarrow> bool" where
  "has_simulatedImage simulationResult =
     (case simulationResult of None \<Rightarrow> False | Some d \<Rightarrow> truthy (p_simulatedImage d))"

text \<open>
  The block "Process simulation results" (lines 380 to 400): the \<open>if\<close> on that test and its two
  branches. In the first branch the result and its image exist, by the test.
\<close>

definition processSimulationResult ::
  "string \<Rightarrow> payload option \<Rightarrow> app_state \<Rightarrow> app_state \<times> event list" where
  "processSimulationResult optimizedSmile simulationResult st =
     (if has_simulatedImage simulationResult then
        (let d = the simulationResult;
             img = the (p_simulatedImage d)
         in (st\<lparr> smileImage := img,
                 idealImage := (if truthy (p_idealImage d) then the (p_idealImage d) else img),
                 simulationData :=
                   Some \<lparr> facialAnalysis = p_facialAnalysis d,
                          qualityScore = p_qualityScore d,
                          warnings = p_warnings d \<rparr> \<rparr>,
             []))
      else
        (st\<lparr> idealImage := optimizedSmile,
             simulationData :=
               Some \<lparr> facialAnalysis = None, qualityScore = None,
                      warnings = Some [''simulation_unavailable''] \<rparr> \<rparr>,
         [Logger SimulationFailedUsingOriginal, Toast Info SimulationNotAvailable None]))"

definition errorMessage :: "thrown \<Rightarrow> string" where
  "errorMessage err = (case err of ErrorInstance m \<Rightarrow> m | OtherValue \<Rightarrow> ''Error desconocido'')"

text \<open>
  \<open>handleCapture\<close> (lines 203 to 440), called as the closure that captured \<open>cap\<close>, on
  the state \<open>st\<close>. The
  guard and the retry test read the captured \<open>isProcessing\<close> and \<open>retryCount\<close>; the
  setters write the state. The \<open>finally\<close> block clears the flag on both paths.
\<close>

definition handleCapture ::
  "env \<Rightarrow> captured \<Rightarrow> app_state \<Rightarrow> string \<Rightarrow> string \<Rightarrow> app_state \<times> event list" where
  "handleCapture e cap st rest smile =
     (if c_isProcessing cap then (st, [Toast Warning AlreadyProcessing None])
      else
        let st1 = st\<lparr> isProcessing := True, restImage := rest, smileImage := smile,
                      step := Loading \<rparr>;
            ev0 = [TrackPhotosCaptured (faceLandmarker e \<noteq> None) (c_retryCount cap)]
        in case pipeline e rest smile of
             Inr out \<Rightarrow>
               (case processSimulationResult (o_optimizedSmile out) (o_simulationResult out) st1 of
                  (st2, ev) \<Rightarrow>
                    (st2\<lparr> analysis := o_analysisText out,
                          metrics := Some (o_calculatedMetrics out),
                          landmarks := o_smileLandmarks out,
                          step := Contact,
                          isProcessing := False \<rparr>,
                     ev0 @ o_events out @ ev))
           | Inl err \<Rightarrow>
               (st1\<lparr> step := Capture, isProcessing := False \<rparr>,
                ev0 @ [Logger (ErrorProcessingSmile err),
                       if c_retryCount cap < MAX_RETRY_ATTEMPTS - 1
                       then Toast Failure (ErrorWith (errorMessage err))
                              (Some (Retry cap rest smile))
                       else Toast Failure GiveUp None]))"

subsection \<open>The other handlers\<close>

text \<open>The closure of the current render, the one the capture widget calls.\<close>

definition render :: "app_state \<Rightarrow> captured" where
  "render st = \<lparr> c_isProcessing = isProcessing st, c_retryCount = retryCount st \<rparr>"

text \<open>
  The \<open>onClick\<close> of the retry action: \<open>setRetryCount(prev => prev + 1)\<close>, then
  \<open>handleCapture(rest, smile)\<close>. Inside the handler the name \<open>handleCapture\<close> is
  the constant of the render that created the handler, that is, the handler itself:
  the call runs the same closure, with the values it captured, on the state as the
  setter leaves it.
\<close>

definition click :: "env \<Rightarrow> action \<Rightarrow> app_state \<Rightarrow> app_state \<times> event list" where
  "click e a st =
     (case a of Retry cap rest smile \<Rightarrow>
        handleCapture e cap (st\<lparr> retryCount := retryCount st + 1 \<rparr>) rest smile)"

definition onStart :: "app_state \<Rightarrow> app_state" where
  "onStart st = st\<lparr> step := Capture \<rparr>"

definition handleContactSubmit :: "contact_data \<Rightarrow> app_state \<Rightarrow> app_state \<times> event list" where
  "handleContactSubmit data st =
     (st\<lparr> contactData := Some data, step := Results \<rparr>,
      [TrackContactSubmitted (email data) (idealImage st \<noteq> [])
         (case simulationData st of None \<Rightarrow> None | Some sd \<Rightarrow> qualityScore sd),
       Toast Success AnalysisCompleted None])"

definition resetApplication :: "app_state \<Rightarrow> app_state" where
  "resetApplication st =
     st\<lparr> step := Hero, restImage := [], smileImage := [], idealImage := [], analysis := [],
         metrics := None, landmarks := None, contactData := None, simulationData := None,
         retryCount := 0 \<rparr>"

text \<open>The state of a freshly mounted component.\<close>

definition initial_state :: app_state where
  "initial_state =
     \<lparr> step = Hero, restImage = [], smileImage = [], idealImage = [], analysis = [],
       metrics = None, landmarks = None, contactData = None, simulationData = None,
       isProcessing = False, retryCount = 0 \<rparr>"

subsection \<open>Reading a trace\<close>

text \<open>The record of the call the loop makes at index \<open>attempt\<close> and time \<open>now\<close>.\<close>

definition the_call :: "nat \<Rightarrow> nat \<Rightarrow> request \<Rightarrow> nat \<Rightarrow> response \<Rightarrow> call" where
  "the_call attempt now rq latency r =
     \<lparr> i_attempt = attempt, i_begun = now, i_aborted = (ABORT_TIMEOUT \<le> now),
       i_request = rq, i_latency = latency, i_response = r \<rparr>"

text \<open>The remote calls of a trace, in order.\<close>

fun calls :: "event list \<Rightarrow> call list" where
  "calls [] = []"
| "calls (Invoke c # evs) = c # calls evs"
| "calls (_ # evs) = calls evs"




definition is_data :: "response \<Rightarrow> bool" where
  "is_data r = (case r of Data _ \<Rightarrow> True | _ \<Rightarrow> False)"


text \<open>The toasts of a trace that carry an action, and the toasts of a trace.\<close>

fun offered :: "event list \<Rightarrow> action list" where
  "offered [] = []"
| "offered (Toast _ _ (Some a) # evs) = a # offered evs"
| "offered (_ # evs) = offered evs"

fun toasts :: "event list \<Rightarrow> (level \<times> message) list" where
  "toasts [] = []"
| "toasts (Toast l m _ # evs) = (l, m) # toasts evs"
| "toasts (_ # evs) = toasts evs"

text \<open>
  The \<open>try\<close> block of the landmark stage throws: a detection throws, a photo shows no
  face, or \<open>computeMetrics\<close> throws.
\<close>

definition landmark_block_throws ::
  "env \<Rightarrow> (string \<Rightarrow> thrown + landmark list list) \<Rightarrow> string \<Rightarrow> string \<Rightarrow> nat \<Rightarrow> nat \<Rightarrow> bool" where
  "landmark_block_throws e detect smileImg restImg imgW imgH =
     (case detect smileImg of
        Inl _ \<Rightarrow> True
      | Inr smileFaces \<Rightarrow>
          (case detect restImg of
             Inl _ \<Rightarrow> True
           | Inr restFaces \<Rightarrow>
               smileFaces = [] \<or> restFaces = [] \<or>
               isl (computeMetrics e (hd restFaces) (hd smileFaces) imgW imgH)))"

subsection \<open>Environments for concrete runs\<close>

text \<open>
  A browser that decodes every photo as 1024 by 768 and has a canvas, no landmark
  detector, a metrics library that loads, and a remote function that is offline:
  every call fails after 100 ms.
\<close>

definition offline_env :: env where
  "offline_env =
     \<lparr> load_image = (\<lambda>src. Some (1024, 768)),
       canvas_2d = True,
       toDataURL = (\<lambda>src w h. ''jpeg:'' @ src),
       import_metrics = None,
       faceLandmarker = None,
       computeMetrics = (\<lambda>restLm smileLm w h. Inl (ErrorInstance ''no landmarks'')),
       analyzeFaceCharacteristics = (\<lambda>m. ''analysis''),
       generateSmileRecommendations = (\<lambda>fa m. ''recommendations''),
       generateAnalysisText = (\<lambda>fa m r. ''text''),
       prep_ms = 500,
       invoke = (\<lambda>attempt rq t. (100, Failed (ErrorInstance ''offline''))) \<rparr>"

text \<open>A truthy \<open>data\<close> with warnings and no image.\<close>

definition warnings_only :: payload where
  "warnings_only =
     \<lparr> p_simulatedImage = None, p_idealImage = None, p_facialAnalysis = None,
       p_qualityScore = None, p_warnings = Some [''model_busy''] \<rparr>"

definition busy_env :: env where
  "busy_env = offline_env\<lparr> invoke := (\<lambda>attempt rq t. (100, Data warnings_only)) \<rparr>"

text \<open>A remote function that answers at once with an image and nothing else.\<close>

definition image_only :: payload where
  "image_only =
     \<lparr> p_simulatedImage = Some ''simulated'', p_idealImage = None, p_facialAnalysis = None,
       p_qualityScore = None, p_warnings = None \<rparr>"

definition online_env :: env where
  "online_env = offline_env\<lparr> invoke := (\<lambda>attempt rq t. (100, Data image_only)) \<rparr>"

text \<open>
  A slow network: a call fails after 16 seconds, or when the abort timer fires if
  that comes first, or at once when the signal it is given is already triggered.
\<close>

definition slow_env :: env where
  "slow_env =
     offline_env\<lparr> invoke :=
       (\<lambda>attempt rq t.
          (if t < ABORT_TIMEOUT then min 16000 (ABORT_TIMEOUT - t) else 0,
           Failed (ErrorInstance ''aborted''))) \<rparr>"

text \<open>A browser that cannot decode the photos at all.\<close>

definition undecodable_env :: env where
  "undecodable_env = offline_env\<lparr> load_image := (\<lambda>src. None) \<rparr>"

definition some_request :: request where
  "some_request =
     \<lparr> imageBase64 = ''smile'', rq_metrics = fallback_no_landmarker,
       rq_faceAnalysis = ''analysis'', rq_recommendations = ''recommendations'' \<rparr>"

text \<open>The state after the user left the entry step.\<close>

definition capture_state :: app_state where
  "capture_state = onStart initial_state"

text \<open>The request the pipeline sends for the photo \<open>''smile''\<close> when there is no detector.\<close>

definition offline_request :: request where
  "offline_request =
     \<lparr> imageBase64 = ''jpeg:smile'', rq_metrics = fallback_no_landmarker,
       rq_faceAnalysis = ''analysis'', rq_recommendations = ''recommendations'' \<rparr>"

text \<open>
  The state in the middle of a run on \<open>rest\<close> and \<open>smile\<close> that began on \<open>st\<close>:
  after the four setters that follow the guard (lines 209 to 212), while the run
  awaits its pipeline.
\<close>

definition in_flight :: "app_state \<Rightarrow> string \<Rightarrow> string \<Rightarrow> app_state" where
  "in_flight st rest smile =
     st\<lparr> isProcessing := True, restImage := rest, smileImage := smile, step := Loading \<rparr>"

text \<open>The retry action of the toast raised by the first failed run on the two photos.\<close>

definition first_retry :: action where
  "first_retry = Retry (render capture_state) ''rest'' ''smile''"

text \<open>A state whose retry counter has reached 2.\<close>

definition spent_state :: app_state where
  "spent_state = capture_state\<lparr> retryCount := 2 \<rparr>"

section \<open>Facts about the retry loop\<close>

lemma simulate_loop_done:
  "MAX_RETRY_ATTEMPTS \<le> attempt \<Longrightarrow> simulate_loop e rq attempt now = (None, [], now)"
  by (subst simulate_loop.simps) simp

lemma simulate_loop_data:
  "attempt < MAX_RETRY_ATTEMPTS \<Longrightarrow> invoke e attempt rq now = (latency, Data d) \<Longrightarrow>
   simulate_loop e rq attempt now =
     (Some d, [Invoke (the_call attempt now rq latency (Data d))], now + latency)"
  by (subst simulate_loop.simps) (simp add: the_call_def)

lemma simulate_loop_empty:
  "attempt < MAX_RETRY_ATTEMPTS \<Longrightarrow> invoke e attempt rq now = (latency, Empty) \<Longrightarrow>
   simulate_loop e rq (Suc attempt) (now + latency) = (res, evs, t) \<Longrightarrow>
   simulate_loop e rq attempt now =
     (res, Invoke (the_call attempt now rq latency Empty) # evs, t)"
  by (subst simulate_loop.simps) (simp add: the_call_def)

lemma simulate_loop_failed:
  "attempt < MAX_RETRY_ATTEMPTS \<Longrightarrow> invoke e attempt rq now = (latency, Failed err) \<Longrightarrow>
   simulate_loop e rq (Suc attempt)
     (now + latency + (if attempt < 2 then 1000 * (attempt + 1) else 0)) = (res, evs, t) \<Longrightarrow>
   simulate_loop e rq attempt now =
     (res,
      Invoke (the_call attempt now rq latency (Failed err))
        # Logger (SimulationAttemptFailed (attempt + 1) err)
        # (if attempt < 2 then [Sleep (1000 * (attempt + 1))] else []) @ evs,
      t)"
  by (subst simulate_loop.simps) (auto simp add: the_call_def MAX_RETRY_ATTEMPTS_def)




lemma loop_calls:
  "simulate_loop e rq attempt now = (res, evs, t) \<Longrightarrow> attempt \<le> MAX_RETRY_ATTEMPTS \<Longrightarrow>
     map i_attempt (calls evs) = [attempt..<attempt + length (calls evs)] \<and>
     attempt + length (calls evs) \<le> MAX_RETRY_ATTEMPTS \<and>
     list_all (\<lambda>c. \<not> is_data (i_response c)) (butlast (calls evs)) \<and>
     list_all (\<lambda>c. i_aborted c = (ABORT_TIMEOUT \<le> i_begun c)) (calls evs) \<and>
     (if calls evs = [] then attempt = MAX_RETRY_ATTEMPTS \<and> res = None
      else (case i_response (last (calls evs)) of
              Data d \<Rightarrow> res = Some d
            | _ \<Rightarrow> attempt + length (calls evs) = MAX_RETRY_ATTEMPTS \<and> res = None))"
proof (induction "MAX_RETRY_ATTEMPTS - attempt" arbitrary: attempt now res evs t)
  case 0
  then show ?case by (simp add: simulate_loop_done)
next
  case (Suc k)
  then have lt: "attempt < MAX_RETRY_ATTEMPTS" and k: "k = MAX_RETRY_ATTEMPTS - Suc attempt"
    and le: "Suc attempt \<le> MAX_RETRY_ATTEMPTS"
    by simp_all
  obtain latency r where inv: "invoke e attempt rq now = (latency, r)"
    by (cases "invoke e attempt rq now")
  show ?case
  proof (cases r)
    case (Data d)
    with simulate_loop_data[OF lt, of e rq now latency d] inv Suc.prems lt show ?thesis
      by (auto simp: the_call_def)
  next
    case Empty
    obtain res' evs' t' where
      rec: "simulate_loop e rq (Suc attempt) (now + latency) = (res', evs', t')"
      by (cases "simulate_loop e rq (Suc attempt) (now + latency)")
    note ih = Suc.hyps(1)[OF k rec le]
    from simulate_loop_empty[OF lt _ rec] inv Empty Suc.prems
    have eq: "res = res'" "evs = Invoke (the_call attempt now rq latency Empty) # evs'" "t = t'"
      by simp_all
    show ?thesis
    proof (cases "calls evs' = []")
      case True
      with ih eq lt show ?thesis
        by (auto simp del: upt_Suc simp add: the_call_def is_data_def upt_conv_Cons)
    next
      case False
      with ih eq lt show ?thesis
        by (auto simp del: upt_Suc simp add: the_call_def is_data_def upt_conv_Cons
            split: response.splits)
    qed
  next
    case (Failed err)
    let ?d = "if attempt < 2 then 1000 * (attempt + 1) else 0"
    obtain res' evs' t' where
      rec: "simulate_loop e rq (Suc attempt) (now + latency + ?d) = (res', evs', t')"
      by (cases "simulate_loop e rq (Suc attempt) (now + latency + ?d)")
    note ih = Suc.hyps(1)[OF k rec le]
    from simulate_loop_failed[OF lt _ rec] inv Failed Suc.prems
    have eq: "res = res'"
      "calls evs = the_call attempt now rq latency (Failed err) # calls evs'" "t = t'"
      by simp_all
    show ?thesis
    proof (cases "calls evs' = []")
      case True
      with ih eq lt show ?thesis
        by (auto simp del: upt_Suc simp add: the_call_def is_data_def upt_conv_Cons)
    next
      case False
      with ih eq lt show ?thesis
        by (auto simp del: upt_Suc simp add: the_call_def is_data_def upt_conv_Cons
            split: response.splits)
    qed
  qed
qed

lemma simulate_loop_unfold:
  "attempt < MAX_RETRY_ATTEMPTS \<Longrightarrow>
   simulate_loop e rq attempt now =
        (case invoke e attempt rq now of (latency, r) \<Rightarrow>
           let ev = Invoke \<lparr> i_attempt = attempt, i_begun = now,
                               i_aborted = (ABORT_TIMEOUT \<le> now), i_request = rq,
                               i_latency = latency, i_response = r \<rparr>;
               settled = now + latency
           in (case r of
                 Data d \<Rightarrow> (Some d, [ev], settled)
               | Empty \<Rightarrow>
                   (case simulate_loop e rq (attempt + 1) settled of
                      (res, evs, t) \<Rightarrow> (res, ev # evs, t))
               | Failed err \<Rightarrow>
                   if attempt < MAX_RETRY_ATTEMPTS - 1 then
                     (case simulate_loop e rq (attempt + 1) (settled + 1000 * (attempt + 1)) of
                        (res, evs, t) \<Rightarrow>
                          (res,
                           ev # Logger (SimulationAttemptFailed (attempt + 1) err)
                             # Sleep (1000 * (attempt + 1)) # evs,
                           t))
                   else
                     (case simulate_loop e rq (attempt + 1) settled of
                        (res, evs, t) \<Rightarrow>
                          (res, ev # Logger (SimulationAttemptFailed (attempt + 1) err) # evs,
                           t))))"
  by (subst simulate_loop.simps) simp

lemmas run_simps = simulate_loop_unfold simulate_loop_done MAX_RETRY_ATTEMPTS_def ABORT_TIMEOUT_def
  Let_def offline_env_def busy_env_def online_env_def slow_env_def undecodable_env_def


lemma busy_run:
  "simulate_loop busy_env some_request 0 0 =
     (Some warnings_only,
      [Invoke \<lparr> i_attempt = 0, i_begun = 0, i_aborted = False, i_request = some_request,
                i_latency = 100, i_response = Data warnings_only \<rparr>],
      100)"
  by (simp add: run_simps)

lemma offline_run:
  "simulate_loop offline_env some_request 0 0 =
     (None,
      [Invoke \<lparr> i_attempt = 0, i_begun = 0, i_aborted = False, i_request = some_request,
                i_latency = 100, i_response = Failed (ErrorInstance ''offline'') \<rparr>,
       Logger (SimulationAttemptFailed 1 (ErrorInstance ''offline'')),
       Sleep 1000,
       Invoke \<lparr> i_attempt = 1, i_begun = 1100, i_aborted = False, i_request = some_request,
                i_latency = 100, i_response = Failed (ErrorInstance ''offline'') \<rparr>,
       Logger (SimulationAttemptFailed 2 (ErrorInstance ''offline'')),
       Sleep 2000,
       Invoke \<lparr> i_attempt = 2, i_begun = 3200, i_aborted = False, i_request = some_request,
                i_latency = 100, i_response = Failed (ErrorInstance ''offline'') \<rparr>,
       Logger (SimulationAttemptFailed 3 (ErrorInstance ''offline''))],
      3300)"
  by (simp add: run_simps)

lemma slow_run:
  "simulate_loop slow_env some_request 0 0 =
     (None,
      [Invoke \<lparr> i_attempt = 0, i_begun = 0, i_aborted = False, i_request = some_request,
                i_latency = 16000, i_response = Failed (ErrorInstance ''aborted'') \<rparr>,
       Logger (SimulationAttemptFailed 1 (ErrorInstance ''aborted'')),
       Sleep 1000,
       Invoke \<lparr> i_attempt = 1, i_begun = 17000, i_aborted = False, i_request = some_request,
                i_latency = 13000, i_response = Failed (ErrorInstance ''aborted'') \<rparr>,
       Logger (SimulationAttemptFailed 2 (ErrorInstance ''aborted'')),
       Sleep 2000,
       Invoke \<lparr> i_attempt = 2, i_begun = 32000, i_aborted = True, i_request = some_request,
                i_latency = 0, i_response = Failed (ErrorInstance ''aborted'') \<rparr>,
       Logger (SimulationAttemptFailed 3 (ErrorInstance ''aborted''))],
      32000)"
  by (simp add: run_simps)

lemma loop_requests:
  "simulate_loop e rq attempt now = (res, evs, t) \<Longrightarrow>
     list_all (\<lambda>c. i_request c = rq) (calls evs)"
proof (induction "MAX_RETRY_ATTEMPTS - attempt" arbitrary: attempt now res evs t)
  case 0
  then show ?case by (simp add: simulate_loop_done)
next
  case (Suc k)
  then have lt: "attempt < MAX_RETRY_ATTEMPTS" and k: "k = MAX_RETRY_ATTEMPTS - Suc attempt"
    by simp_all
  obtain latency r where inv: "invoke e attempt rq now = (latency, r)"
    by (cases "invoke e attempt rq now")
  show ?case
  proof (cases r)
    case (Data d)
    with simulate_loop_data[OF lt, of e rq now latency d] inv Suc.prems show ?thesis
      by (auto simp: the_call_def)
  next
    case Empty
    obtain res' evs' t' where
      rec: "simulate_loop e rq (Suc attempt) (now + latency) = (res', evs', t')"
      by (cases "simulate_loop e rq (Suc attempt) (now + latency)")
    from simulate_loop_empty[OF lt _ rec] inv Empty Suc.prems
    have "calls evs = the_call attempt now rq latency Empty # calls evs'"
      by simp
    with Suc.hyps(1)[OF k rec] show ?thesis
      by (simp add: the_call_def)
  next
    case (Failed err)
    let ?d = "if attempt < 2 then 1000 * (attempt + 1) else 0"
    obtain res' evs' t' where
      rec: "simulate_loop e rq (Suc attempt) (now + latency + ?d) = (res', evs', t')"
      by (cases "simulate_loop e rq (Suc attempt) (now + latency + ?d)")
    from simulate_loop_failed[OF lt _ rec] inv Failed Suc.prems
    have "calls evs = the_call attempt now rq latency (Failed err) # calls evs'"
      by simp
    with Suc.hyps(1)[OF k rec] show ?thesis
      by (simp add: the_call_def)
  qed
qed

lemma calls_append: "calls (xs @ ys) = calls xs @ calls ys"
  by (induction xs rule: calls.induct) simp_all

lemma calls_validate: "calls (snd (validateImageQuality img)) = []"
  by (simp add: validateImageQuality_def Let_def split: prod.splits)

lemma calls_detect: "calls (snd (snd (detectLandmarks e s r w h))) = []"
  by (simp add: detectLandmarks_def split: option.splits sum.splits list.splits)

lemma calls_process: "calls (snd (processSimulationResult s r st)) = []"
  by (simp add: processSimulationResult_def Let_def)

text \<open>What the pipeline returns once both photos were optimised and loaded.\<close>

lemma pipeline_ready:
  assumes "optimizeImage e rest = Inr optimizedRest"
      and "optimizeImage e smile = Inr optimizedSmile"
      and "import_metrics e = None"
      and "load_image e optimizedSmile = Some smileImg"
      and "load_image e optimizedRest = Some restImg"
  shows "\<exists>out. pipeline e rest smile = Inr out \<and>
           o_optimizedSmile out = optimizedSmile \<and>
           o_calculatedMetrics out =
             fst (snd (detectLandmarks e optimizedSmile optimizedRest (fst smileImg) (snd smileImg))) \<and>
           o_analysisText out =
             generateAnalysisText e (analyzeFaceCharacteristics e (o_calculatedMetrics out))
               (o_calculatedMetrics out)
               (generateSmileRecommendations e
                  (analyzeFaceCharacteristics e (o_calculatedMetrics out))
                  (o_calculatedMetrics out)) \<and>
           list_all (\<lambda>c. rq_metrics (i_request c) = o_calculatedMetrics out) (calls (o_events out))"
proof -
  obtain sv ev1 where v1: "validateImageQuality smileImg = (sv, ev1)"
    by (cases "validateImageQuality smileImg")
  obtain rv ev2 where v2: "validateImageQuality restImg = (rv, ev2)"
    by (cases "validateImageQuality restImg")
  obtain lm m ev4 where d: "detectLandmarks e optimizedSmile optimizedRest (fst smileImg) (snd smileImg) = (lm, m, ev4)"
    by (cases "detectLandmarks e optimizedSmile optimizedRest (fst smileImg) (snd smileImg)")
  define rq where "rq = \<lparr> imageBase64 = optimizedSmile, rq_metrics = m,
      rq_faceAnalysis = analyzeFaceCharacteristics e m,
      rq_recommendations = generateSmileRecommendations e (analyzeFaceCharacteristics e m) m \<rparr>"
  obtain res ev5 t where s: "simulate_loop e rq 0 (prep_ms e) = (res, ev5, t)"
    by (cases "simulate_loop e rq 0 (prep_ms e)")
  from calls_validate[of smileImg] v1 have c1: "calls ev1 = []" by simp
  from calls_validate[of restImg] v2 have c2: "calls ev2 = []" by simp
  from calls_detect[of e optimizedSmile optimizedRest "fst smileImg" "snd smileImg"] d
  have c4: "calls ev4 = []" by simp
  from loop_requests[OF s] have c5: "list_all (\<lambda>c. rq_metrics (i_request c) = m) (calls ev5)"
    by (simp add: rq_def list_all_iff)
  show ?thesis
    using assms v1 v2 d s[unfolded rq_def] c1 c2 c4 c5
    by (simp add: pipeline_def Let_def calls_append)
qed

section \<open>The retry loop of the simulation call\<close>

text \<open>
  Claim C1, as stated, says that only a response with a non-empty simulated image ends
  the loop and that every response without one is followed by the next attempt. The
  loop tests \<open>data\<close>, not \<open>data.simulatedImage\<close>: a first response whose data holds
  warnings and no image ends the loop after that single attempt, and the result has no
  simulated image.
\<close>

theorem data_without_image_ends_loop:
  "map i_attempt (calls (fst (snd (simulate_loop busy_env some_request 0 0)))) = [0] \<and>
   map i_response (calls (fst (snd (simulate_loop busy_env some_request 0 0)))) = [Data warnings_only] \<and>
   \<not> truthy (p_simulatedImage warnings_only) \<and>
   \<not> has_simulatedImage (fst (simulate_loop busy_env some_request 0 0))"
  by (simp add: busy_run warnings_only_def truthy_def has_simulatedImage_def)

text \<open>
  Claim C1, amended: the loop ends with the first response that has no error and a
  truthy \<open>data\<close>, whatever that data holds, and its result is that data; a response
  with an error or with no data is followed by the next attempt, until three attempts
  were made, and then the result is empty. So the attempts are numbered from 0 without
  a gap, there are between one and three, none but the last has data, and the last one
  either has data, which is the result, or is the third, with no result.
\<close>

theorem loop_ends_on_first_data:
  "case simulate_loop e rq 0 start of (res, evs, t) \<Rightarrow>
     calls evs \<noteq> [] \<and> length (calls evs) \<le> 3 \<and>
     map i_attempt (calls evs) = [0..<length (calls evs)] \<and>
     list_all (\<lambda>c. \<not> is_data (i_response c)) (butlast (calls evs)) \<and>
     (case i_response (last (calls evs)) of
        Data d \<Rightarrow> res = Some d
      | _ \<Rightarrow> length (calls evs) = 3 \<and> res = None)"
proof -
  obtain res evs t where run: "simulate_loop e rq 0 start = (res, evs, t)"
    by (cases "simulate_loop e rq 0 start")
  from loop_calls[OF run] have
    shape: "map i_attempt (calls evs) = [0..<length (calls evs)]"
      "length (calls evs) \<le> MAX_RETRY_ATTEMPTS"
      "list_all (\<lambda>c. \<not> is_data (i_response c)) (butlast (calls evs))"
    and fin: "if calls evs = [] then 0 = MAX_RETRY_ATTEMPTS \<and> res = None
      else (case i_response (last (calls evs)) of
              Data d \<Rightarrow> res = Some d
            | _ \<Rightarrow> 0 + length (calls evs) = MAX_RETRY_ATTEMPTS \<and> res = None)"
    by simp_all
  from fin have ne: "calls evs \<noteq> []"
    by (auto simp: MAX_RETRY_ATTEMPTS_def)
  with fin have "case i_response (last (calls evs)) of
              Data d \<Rightarrow> res = Some d
            | _ \<Rightarrow> length (calls evs) = 3 \<and> res = None"
    by (auto simp: MAX_RETRY_ATTEMPTS_def split: response.splits)
  with shape ne show ?thesis
    by (simp add: run MAX_RETRY_ATTEMPTS_def)
qed

text \<open>Two runs: three failed attempts and no result; one attempt whose data is the result.\<close>

theorem loop_ends_on_first_data_witness:
  "(case simulate_loop offline_env some_request 0 0 of (res, evs, t) \<Rightarrow>
      map i_attempt (calls evs) = [0, 1, 2] \<and>
      list_all (\<lambda>c. \<not> is_data (i_response c)) (calls evs) \<and> res = None) \<and>
   (case simulate_loop busy_env some_request 0 0 of (res, evs, t) \<Rightarrow>
      map i_attempt (calls evs) = [0] \<and> res = Some warnings_only)"
  using loop_ends_on_first_data[where e = offline_env and rq = some_request and start = 0]
    loop_ends_on_first_data[where e = busy_env and rq = some_request and start = 0]
  by (simp add: offline_run busy_run is_data_def)



text \<open>
  Claim C4, as stated, says that no attempt is begun once the abort timer has fired,
  because the loop checks the signal before each retry. The loop has no such check.
  On a slow network the first call fails after 16 s, the second is cut off when the
  timer fires at 30 s, and the third attempt is begun at 32 s with a signal that is
  already triggered.
\<close>

theorem attempt_begun_after_abort:
  "map (\<lambda>c. (i_attempt c, i_begun c, i_aborted c))
     (calls (fst (snd (simulate_loop slow_env some_request 0 0)))) =
     [(0, 0, False), (1, 17000, False), (2, 32000, True)] \<and> ABORT_TIMEOUT < 32000"
  by (simp add: slow_run ABORT_TIMEOUT_def)

text \<open>
  Claim C4, amended: the abort signal is only handed to each remote call, triggered
  exactly when 30 s have passed since the timer was armed; the loop never reads it.
  After every attempt that has no data and is not the third, the next attempt is
  begun, whether or not the signal is triggered by then.
\<close>

theorem abort_signal_only_handed_on:
  "case simulate_loop e rq 0 start of (res, evs, t) \<Rightarrow>
     list_all (\<lambda>c. i_aborted c = (ABORT_TIMEOUT \<le> i_begun c)) (calls evs) \<and>
     (\<forall>c \<in> set (calls evs).
        \<not> is_data (i_response c) \<and> i_attempt c < 2 \<longrightarrow>
        (\<exists>c' \<in> set (calls evs). i_attempt c' = i_attempt c + 1))"
proof -
  obtain res evs t where run: "simulate_loop e rq 0 start = (res, evs, t)"
    by (cases "simulate_loop e rq 0 start")
  let ?cs = "calls evs"
  from loop_calls[OF run] have
    idx: "map i_attempt ?cs = [0..<length ?cs]"
    and sig: "list_all (\<lambda>c. i_aborted c = (ABORT_TIMEOUT \<le> i_begun c)) ?cs"
    and fin: "?cs \<noteq> [] \<Longrightarrow> is_data (i_response (last ?cs)) \<or> length ?cs = 3"
    by (auto simp: MAX_RETRY_ATTEMPTS_def is_data_def split: response.splits)
  have "\<exists>c' \<in> set ?cs. i_attempt c' = i_attempt c + 1"
    if c: "c \<in> set ?cs" and nd: "\<not> is_data (i_response c)" and lt: "i_attempt c < 2" for c
  proof -
    from c obtain k where k: "k < length ?cs" "?cs ! k = c"
      by (auto simp: in_set_conv_nth)
    from idx k have ik: "i_attempt c = k"
      by (metis add_0 length_map nth_map nth_upt)
    from c have ne: "?cs \<noteq> []" by auto
    have "Suc k < length ?cs"
    proof (rule ccontr)
      assume "\<not> Suc k < length ?cs"
      with k have last: "k = length ?cs - 1" by simp
      with k ne have "last ?cs = c" by (simp add: last_conv_nth)
      with fin[OF ne] nd have "length ?cs = 3" by simp
      with last ik lt show False by simp
    qed
    moreover from this idx have "i_attempt (?cs ! Suc k) = Suc k"
      by (metis add_0 length_map nth_map nth_upt)
    moreover from calculation(1) have "?cs ! Suc k \<in> set ?cs"
      by simp
    ultimately show ?thesis using ik by auto
  qed
  with sig show ?thesis by (simp add: run)
qed

text \<open>
  On the slow network the second attempt ends without data when the timer fires, and
  the third attempt is begun with the triggered signal.
\<close>

theorem abort_signal_only_handed_on_witness:
  "case simulate_loop slow_env some_request 0 0 of (res, evs, t) \<Rightarrow>
     (\<exists>c \<in> set (calls evs). i_attempt c = 1 \<and> \<not> is_data (i_response c) \<and> ABORT_TIMEOUT \<le> i_begun c + i_latency c) \<and>
     (\<exists>c' \<in> set (calls evs). i_attempt c' = 2 \<and> i_aborted c')"
  using abort_signal_only_handed_on[where e = slow_env and rq = some_request and start = 0]
  by (simp add: slow_run is_data_def ABORT_TIMEOUT_def)

section \<open>Facts about the handler\<close>

lemma offline_fields:
  "load_image offline_env = (\<lambda>src. Some (1024, 768))"
  "canvas_2d offline_env"
  "toDataURL offline_env = (\<lambda>src w h. ''jpeg:'' @ src)"
  "import_metrics offline_env = None"
  "faceLandmarker offline_env = None"
  "analyzeFaceCharacteristics offline_env = (\<lambda>m. ''analysis'')"
  "generateSmileRecommendations offline_env = (\<lambda>fa m. ''recommendations'')"
  "generateAnalysisText offline_env = (\<lambda>fa m r. ''text'')"
  "prep_ms offline_env = 500"
  "invoke offline_env = (\<lambda>attempt rq t. (100, Failed (ErrorInstance ''offline'')))"
  by (simp_all add: offline_env_def)

lemma online_fields:
  "load_image online_env = (\<lambda>src. Some (1024, 768))"
  "canvas_2d online_env"
  "toDataURL online_env = (\<lambda>src w h. ''jpeg:'' @ src)"
  "import_metrics online_env = None"
  "faceLandmarker online_env = None"
  "analyzeFaceCharacteristics online_env = (\<lambda>m. ''analysis'')"
  "generateSmileRecommendations online_env = (\<lambda>fa m. ''recommendations'')"
  "generateAnalysisText online_env = (\<lambda>fa m r. ''text'')"
  "prep_ms online_env = 500"
  "invoke online_env = (\<lambda>attempt rq t. (100, Data image_only))"
  by (simp_all add: online_env_def offline_env_def)

lemma offline_optimized: "optimizeImage offline_env src = Inr (''jpeg:'' @ src)"
  by (simp add: optimizeImage_def offline_fields MAX_IMAGE_SIZE_def)

lemma online_optimized: "optimizeImage online_env src = Inr (''jpeg:'' @ src)"
  by (simp add: optimizeImage_def online_fields MAX_IMAGE_SIZE_def)

lemma offline_loop:
  "simulate_loop offline_env rq 0 500 =
     (None,
      [Invoke (the_call 0 500 rq 100 (Failed (ErrorInstance ''offline''))),
       Logger (SimulationAttemptFailed 1 (ErrorInstance ''offline'')),
       Sleep 1000,
       Invoke (the_call 1 1600 rq 100 (Failed (ErrorInstance ''offline''))),
       Logger (SimulationAttemptFailed 2 (ErrorInstance ''offline'')),
       Sleep 2000,
       Invoke (the_call 2 3700 rq 100 (Failed (ErrorInstance ''offline''))),
       Logger (SimulationAttemptFailed 3 (ErrorInstance ''offline''))],
      3800)"
  by (simp add: simulate_loop_unfold simulate_loop_done MAX_RETRY_ATTEMPTS_def Let_def
      offline_fields the_call_def)

lemma online_loop:
  "simulate_loop online_env rq 0 500 =
     (Some image_only, [Invoke (the_call 0 500 rq 100 (Data image_only))], 600)"
  by (simp add: simulate_loop_unfold MAX_RETRY_ATTEMPTS_def Let_def online_fields the_call_def)

lemma valid_1024_768: "validateImageQuality (1024, 768) = (True, [])"
  by (simp add: validateImageQuality_def)

lemma handled_ok:
  "\<not> c_isProcessing cap \<Longrightarrow> pipeline e rest smile = Inr out \<Longrightarrow>
   handleCapture e cap st rest smile =
     (case processSimulationResult (o_optimizedSmile out) (o_simulationResult out)
             (st\<lparr> isProcessing := True, restImage := rest, smileImage := smile,
                  step := Loading \<rparr>) of
        (st2, ev) \<Rightarrow>
          (st2\<lparr> analysis := o_analysisText out,
                metrics := Some (o_calculatedMetrics out),
                landmarks := o_smileLandmarks out,
                step := Contact,
                isProcessing := False \<rparr>,
           [TrackPhotosCaptured (faceLandmarker e \<noteq> None) (c_retryCount cap)]
             @ o_events out @ ev))"
  by (simp add: handleCapture_def Let_def)

lemma handled_error:
  "\<not> c_isProcessing cap \<Longrightarrow> pipeline e rest smile = Inl err \<Longrightarrow>
   handleCapture e cap st rest smile =
     (st\<lparr> isProcessing := False, restImage := rest, smileImage := smile, step := Capture \<rparr>,
      [TrackPhotosCaptured (faceLandmarker e \<noteq> None) (c_retryCount cap),
       Logger (ErrorProcessingSmile err),
       if c_retryCount cap < 2
       then Toast Failure (ErrorWith (errorMessage err)) (Some (Retry cap rest smile))
       else Toast Failure GiveUp None])"
  by (simp add: handleCapture_def Let_def MAX_RETRY_ATTEMPTS_def)

lemma capture_state_idle: "\<not> c_isProcessing (render capture_state)"
  by (simp add: render_def capture_state_def onStart_def initial_state_def)

lemma offline_pipeline:
  "pipeline offline_env ''rest'' ''smile'' =
     Inr \<lparr> o_optimizedSmile = ''jpeg:smile'', o_calculatedMetrics = fallback_no_landmarker,
           o_analysisText = ''text'', o_smileLandmarks = None, o_simulationResult = None,
           o_events =
             [Invoke (the_call 0 500 offline_request 100 (Failed (ErrorInstance ''offline''))),
              Logger (SimulationAttemptFailed 1 (ErrorInstance ''offline'')),
              Sleep 1000,
              Invoke (the_call 1 1600 offline_request 100 (Failed (ErrorInstance ''offline''))),
              Logger (SimulationAttemptFailed 2 (ErrorInstance ''offline'')),
              Sleep 2000,
              Invoke (the_call 2 3700 offline_request 100 (Failed (ErrorInstance ''offline''))),
              Logger (SimulationAttemptFailed 3 (ErrorInstance ''offline''))],
           o_finished = 3800 \<rparr>"
  by (simp add: pipeline_def offline_optimized offline_loop offline_fields valid_1024_768
      detectLandmarks_def Let_def offline_request_def)

lemma online_pipeline:
  "pipeline online_env ''rest'' ''smile'' =
     Inr \<lparr> o_optimizedSmile = ''jpeg:smile'', o_calculatedMetrics = fallback_no_landmarker,
           o_analysisText = ''text'', o_smileLandmarks = None,
           o_simulationResult = Some image_only,
           o_events = [Invoke (the_call 0 500 offline_request 100 (Data image_only))],
           o_finished = 600 \<rparr>"
  by (simp add: pipeline_def online_optimized online_loop online_fields valid_1024_768
      detectLandmarks_def Let_def offline_request_def)

lemma offline_handled:
  "handleCapture offline_env (render capture_state) capture_state ''rest'' ''smile'' =
     (capture_state\<lparr> restImage := ''rest'', smileImage := ''smile'',
              idealImage := ''jpeg:smile'', analysis := ''text'',
              metrics := Some fallback_no_landmarker, landmarks := None,
              simulationData :=
                Some \<lparr> facialAnalysis = None, qualityScore = None,
                       warnings = Some [''simulation_unavailable''] \<rparr>,
              step := Contact, isProcessing := False \<rparr>,
      [TrackPhotosCaptured False 0,
       Invoke (the_call 0 500 offline_request 100 (Failed (ErrorInstance ''offline''))),
       Logger (SimulationAttemptFailed 1 (ErrorInstance ''offline'')),
       Sleep 1000,
       Invoke (the_call 1 1600 offline_request 100 (Failed (ErrorInstance ''offline''))),
       Logger (SimulationAttemptFailed 2 (ErrorInstance ''offline'')),
       Sleep 2000,
       Invoke (the_call 2 3700 offline_request 100 (Failed (ErrorInstance ''offline''))),
       Logger (SimulationAttemptFailed 3 (ErrorInstance ''offline'')),
       Logger SimulationFailedUsingOriginal, Toast Info SimulationNotAvailable None])"
  unfolding handled_ok[OF capture_state_idle offline_pipeline]
  by (simp add: processSimulationResult_def has_simulatedImage_def offline_fields render_def
       capture_state_def onStart_def initial_state_def)

lemma undecodable_pipeline: "pipeline undecodable_env rest smile = Inl OtherValue"
  by (simp add: pipeline_def optimizeImage_def undecodable_env_def offline_env_def)

lemma undecodable_handled:
  "\<not> c_isProcessing cap \<Longrightarrow>
   handleCapture undecodable_env cap st rest smile =
     (st\<lparr> isProcessing := False, restImage := rest, smileImage := smile, step := Capture \<rparr>,
      [TrackPhotosCaptured False (c_retryCount cap),
       Logger (ErrorProcessingSmile OtherValue),
       if c_retryCount cap < 2
       then Toast Failure (ErrorWith ''Error desconocido'') (Some (Retry cap rest smile))
       else Toast Failure GiveUp None])"
proof -
  have "faceLandmarker undecodable_env = None"
    by (simp add: undecodable_env_def offline_env_def)
  moreover assume "\<not> c_isProcessing cap"
  ultimately show ?thesis
    by (simp add: handled_error[OF _ undecodable_pipeline] errorMessage_def)
qed

lemma fallbacks_equal: "fallback_no_landmarker = fallback_on_error"
  by (simp add: fallback_no_landmarker_def fallback_on_error_def)

lemma detect_throws:
  assumes lm: "faceLandmarker e = Some detect"
      and thr: "landmark_block_throws e detect smileImg restImg imgW imgH"
  shows "fst (snd (detectLandmarks e smileImg restImg imgW imgH)) = fallback_on_error"
proof (cases "detect smileImg")
  case (Inl err)
  with lm show ?thesis by (simp add: detectLandmarks_def)
next
  case smile: (Inr smileFaces)
  show ?thesis
  proof (cases "detect restImg")
    case (Inl err)
    with lm smile show ?thesis by (simp add: detectLandmarks_def)
  next
    case rest: (Inr restFaces)
    show ?thesis
    proof (cases smileFaces)
      case Nil
      with lm smile rest show ?thesis by (simp add: detectLandmarks_def)
    next
      case sf: (Cons smileLm smileMore)
      show ?thesis
      proof (cases restFaces)
        case Nil
        with lm smile rest sf show ?thesis by (simp add: detectLandmarks_def)
      next
        case rf: (Cons restLm restMore)
        from thr smile rest sf rf have "isl (computeMetrics e restLm smileLm imgW imgH)"
          by (simp add: landmark_block_throws_def)
        then obtain err where "computeMetrics e restLm smileLm imgW imgH = Inl err"
          by (cases "computeMetrics e restLm smileLm imgW imgH") simp_all
        with lm smile rest sf rf show ?thesis by (simp add: detectLandmarks_def)
      qed
    qed
  qed
qed

lemma detect_unavailable:
  assumes "faceLandmarker e = None \<or>
           (\<exists>detect. faceLandmarker e = Some detect \<and>
              landmark_block_throws e detect smileImg restImg imgW imgH)"
  shows "fst (snd (detectLandmarks e smileImg restImg imgW imgH)) = fallback_on_error"
  using assms
proof
  assume "faceLandmarker e = None"
  then show ?thesis by (simp add: detectLandmarks_def fallbacks_equal)
next
  assume "\<exists>detect. faceLandmarker e = Some detect \<and>
              landmark_block_throws e detect smileImg restImg imgW imgH"
  then show ?thesis by (blast intro: detect_throws)
qed

section \<open>The handlers\<close>

text \<open>
  Claim C7: \<open>optimizeImage\<close> resolves for every input string, and when the image
  does not decode or the canvas gives no context it resolves with the input string
  itself. (The promise has no rejecting path; drawing on the canvas and encoding it
  are taken to return.)
\<close>

theorem optimizeImage_never_fails:
  "(\<exists>s. optimizeImage e base64 = Inr s) \<and>
   (load_image e base64 = None \<or> \<not> canvas_2d e \<longrightarrow> optimizeImage e base64 = Inr base64)"
  by (auto simp: optimizeImage_def Let_def split: option.splits prod.splits)

text \<open>A photo the browser cannot decode, and a browser without a canvas context.\<close>

theorem optimizeImage_never_fails_witness:
  "load_image undecodable_env ''photo'' = None \<and>
   optimizeImage undecodable_env ''photo'' = Inr ''photo'' \<and>
   \<not> canvas_2d (offline_env\<lparr> canvas_2d := False \<rparr>) \<and>
   optimizeImage (offline_env\<lparr> canvas_2d := False \<rparr>) ''photo'' = Inr ''photo''"
  using optimizeImage_never_fails[of undecodable_env "''photo''"]
    optimizeImage_never_fails[of "offline_env\<lparr> canvas_2d := False \<rparr>" "''photo''"]
  by (simp add: undecodable_env_def offline_env_def)

text \<open>
  The guard of \<open>handleCapture\<close> by itself: a closure that captured the flag set
  returns at once with the notice and leaves the state as it is.
\<close>

lemma guard_of_captured_flag:
  "c_isProcessing cap \<Longrightarrow>
   handleCapture e cap st rest smile = (st, [Toast Warning AlreadyProcessing None])"
  by (simp add: handleCapture_def)

text \<open>
  Claim C5 says that every submission made while a run is in flight is rejected with
  a notice, starts no second run and leaves the state of the current run unchanged.
  The guard reads the flag its closure captured, not the flag of the state, and the
  submissions that can arrive during a run come from closures of earlier renders:
  while a run is in flight the capture widget is not shown, but the retry action of
  an earlier toast still is. Two photos that do not decode are submitted on a fresh
  state; the run fails and its toast offers the retry action. A second pair is
  submitted and its run is in flight, the flag of the state set. The retry action is
  pressed: no notice is shown, a second run starts (it is tracked, fails and raises
  its own toast), and the state of the run in flight is overwritten: its photos are
  replaced by the first pair, its step becomes the capture step, its flag is cleared
  and the retry counter is raised. The defect is the stale closure of claim C8.
\<close>

theorem stale_retry_starts_second_run:
  "case handleCapture undecodable_env (render capture_state) capture_state ''rest'' ''smile'' of
     (s1, ev1) \<Rightarrow>
       offered ev1 = [first_retry] \<and>
       isProcessing (in_flight s1 ''rest2'' ''smile2'') \<and>
       restImage (in_flight s1 ''rest2'' ''smile2'') = ''rest2'' \<and>
       step (in_flight s1 ''rest2'' ''smile2'') = Loading \<and>
       retryCount (in_flight s1 ''rest2'' ''smile2'') = 0 \<and>
       (case click undecodable_env first_retry (in_flight s1 ''rest2'' ''smile2'') of
          (s2, ev2) \<Rightarrow>
            ev2 = [TrackPhotosCaptured False 0, Logger (ErrorProcessingSmile OtherValue),
                   Toast Failure (ErrorWith ''Error desconocido'') (Some first_retry)] \<and>
            toasts ev2 \<noteq> [(Warning, AlreadyProcessing)] \<and>
            restImage s2 = ''rest'' \<and> smileImage s2 = ''smile'' \<and>
            step s2 = Capture \<and> \<not> isProcessing s2 \<and> retryCount s2 = 1)"
  by (simp add: first_retry_def click_def undecodable_handled capture_state_idle in_flight_def)
     (simp add: render_def capture_state_def onStart_def initial_state_def)

text \<open>
  Claim C2: once both photos are optimised and loaded and the metrics library is
  imported, nothing the remote function does makes the pipeline throw: it returns.
  When it returns without a usable simulated image, which is the case when all
  attempts are exhausted, the handler stores the marker whose warnings are exactly
  \<open>[''simulation_unavailable'']\<close>, sets the ideal image to the optimised smiling
  photo, and completes the run at the contact step with the flag cleared.
\<close>

theorem simulation_exhausted_degrades:
  assumes "\<not> c_isProcessing cap"
      and "optimizeImage e rest = Inr optimizedRest"
      and "optimizeImage e smile = Inr optimizedSmile"
      and "import_metrics e = None"
      and "load_image e optimizedSmile = Some smileImg"
      and "load_image e optimizedRest = Some restImg"
  shows "\<exists>out. pipeline e rest smile = Inr out \<and>
           (\<not> has_simulatedImage (o_simulationResult out) \<longrightarrow>
              (case handleCapture e cap st rest smile of (st', evs) \<Rightarrow>
                 simulationData st' =
                   Some \<lparr> facialAnalysis = None, qualityScore = None,
                          warnings = Some [''simulation_unavailable''] \<rparr> \<and>
                 idealImage st' = optimizedSmile \<and>
                 step st' = Contact \<and> \<not> isProcessing st' \<and>
                 analysis st' = o_analysisText out \<and>
                 metrics st' = Some (o_calculatedMetrics out)))"
proof -
  from pipeline_ready[OF assms(2-6)] obtain out where
    out: "pipeline e rest smile = Inr out" "o_optimizedSmile out = optimizedSmile"
    by blast
  with assms(1) show ?thesis
    by (simp add: handleCapture_def processSimulationResult_def Let_def)
qed

text \<open>The run against the offline remote function: three attempts, then the marker.\<close>

theorem simulation_exhausted_degrades_witness:
  "case handleCapture offline_env (render capture_state) capture_state ''rest'' ''smile'' of
     (st', evs) \<Rightarrow>
       map i_attempt (calls evs) = [0, 1, 2] \<and>
       simulationData st' =
         Some \<lparr> facialAnalysis = None, qualityScore = None,
                warnings = Some [''simulation_unavailable''] \<rparr> \<and>
       idealImage st' = ''jpeg:smile'' \<and> step st' = Contact"
proof -
  have "\<exists>out. pipeline offline_env ''rest'' ''smile'' = Inr out \<and>
           (\<not> has_simulatedImage (o_simulationResult out) \<longrightarrow>
              (case handleCapture offline_env (render capture_state) capture_state
                      ''rest'' ''smile'' of
                 (st', evs) \<Rightarrow>
                   simulationData st' =
                     Some \<lparr> facialAnalysis = None, qualityScore = None,
                            warnings = Some [''simulation_unavailable''] \<rparr> \<and>
                   idealImage st' = ''jpeg:smile'' \<and>
                   step st' = Contact \<and> \<not> isProcessing st' \<and>
                   analysis st' = o_analysisText out \<and>
                   metrics st' = Some (o_calculatedMetrics out)))"
    by (rule simulation_exhausted_degrades[where optimizedRest = "''jpeg:rest''"
          and smileImg = "(1024, 768)" and restImg = "(1024, 768)"])
       (simp_all add: capture_state_idle offline_optimized offline_fields)
  then have "case handleCapture offline_env (render capture_state) capture_state
                      ''rest'' ''smile'' of
                 (st', evs) \<Rightarrow>
                   simulationData st' =
                     Some \<lparr> facialAnalysis = None, qualityScore = None,
                            warnings = Some [''simulation_unavailable''] \<rparr> \<and>
                   idealImage st' = ''jpeg:smile'' \<and>
                   step st' = Contact"
    by (auto simp: offline_pipeline has_simulatedImage_def split: prod.splits)
  then show ?thesis
    by (simp add: offline_handled the_call_def)
qed

text \<open>
  Claim C6: when landmarks are unavailable, because there is no detector or because
  the detection block throws (a detection throws, a photo shows no face, or the
  metric computation throws), the run goes on to the contact step, and the metrics
  stored, sent with every remote call and used for the analysis text are the literal
  fallback record. The two literals, one per path, are the same record.
\<close>

theorem landmarks_unavailable_fallback:
  assumes "\<not> c_isProcessing cap"
      and "optimizeImage e rest = Inr optimizedRest"
      and "optimizeImage e smile = Inr optimizedSmile"
      and "import_metrics e = None"
      and "load_image e optimizedSmile = Some smileImg"
      and "load_image e optimizedRest = Some restImg"
      and "faceLandmarker e = None \<or>
           (\<exists>detect. faceLandmarker e = Some detect \<and>
              landmark_block_throws e detect optimizedSmile optimizedRest
                (fst smileImg) (snd smileImg))"
  shows "(case handleCapture e cap st rest smile of (st', evs) \<Rightarrow>
            step st' = Contact \<and>
            metrics st' = Some fallback_on_error \<and>
            list_all (\<lambda>c. rq_metrics (i_request c) = fallback_on_error) (calls evs) \<and>
            analysis st' =
              generateAnalysisText e (analyzeFaceCharacteristics e fallback_on_error)
                fallback_on_error
                (generateSmileRecommendations e
                   (analyzeFaceCharacteristics e fallback_on_error) fallback_on_error)) \<and>
         fallback_no_landmarker = fallback_on_error \<and>
         fallback_on_error =
           \<lparr> smileArc = ''consonante'',
             gingival = \<lparr> g_mm = 1, g_class = ''media'' \<rparr>,
             midline = \<lparr> m_mm = 0, m_side = ''centrado'' \<rparr>,
             buccalRatio = 8 / 10,
             facialMidline = \<lparr> m_mm = 0, m_side = ''centrado'' \<rparr>,
             midlineCoincidence = \<lparr> deviation = 0, status = ''coincidente'' \<rparr>,
             facialProportions =
               \<lparr> upperThird = 33 / 100, middleThird = 34 / 100, lowerThird = 33 / 100,
                 isBalanced = True \<rparr> \<rparr>"
proof -
  from pipeline_ready[OF assms(2-6)] detect_unavailable[OF assms(7)] obtain out where
    out: "pipeline e rest smile = Inr out"
    and m: "o_calculatedMetrics out = fallback_on_error"
    and t: "o_analysisText out =
             generateAnalysisText e (analyzeFaceCharacteristics e fallback_on_error)
               fallback_on_error
               (generateSmileRecommendations e
                  (analyzeFaceCharacteristics e fallback_on_error) fallback_on_error)"
    and c: "list_all (\<lambda>c. rq_metrics (i_request c) = fallback_on_error) (calls (o_events out))"
    by auto
  obtain st2 ev where pr:
    "processSimulationResult (o_optimizedSmile out) (o_simulationResult out)
       (st\<lparr> isProcessing := True, restImage := rest, smileImage := smile, step := Loading \<rparr>)
      = (st2, ev)"
    by (cases "processSimulationResult (o_optimizedSmile out) (o_simulationResult out)
       (st\<lparr> isProcessing := True, restImage := rest, smileImage := smile, step := Loading \<rparr>)")
  from calls_process[of "o_optimizedSmile out" "o_simulationResult out"
      "st\<lparr> isProcessing := True, restImage := rest, smileImage := smile, step := Loading \<rparr>"] pr
  have ce: "calls ev = []" by simp
  have "case handleCapture e cap st rest smile of (st', evs) \<Rightarrow>
            step st' = Contact \<and>
            metrics st' = Some fallback_on_error \<and>
            list_all (\<lambda>c. rq_metrics (i_request c) = fallback_on_error) (calls evs) \<and>
            analysis st' =
              generateAnalysisText e (analyzeFaceCharacteristics e fallback_on_error)
                fallback_on_error
                (generateSmileRecommendations e
                   (analyzeFaceCharacteristics e fallback_on_error) fallback_on_error)"
    using m t c ce
    by (simp add: handled_ok[OF assms(1) out] pr calls_append)
  then show ?thesis
    by (simp add: fallbacks_equal) (simp add: fallback_on_error_def)
qed

text \<open>A run without a detector: the fallback record is stored and sent three times.\<close>

theorem landmarks_unavailable_fallback_witness:
  "faceLandmarker offline_env = None \<and>
   (case handleCapture offline_env (render capture_state) capture_state ''rest'' ''smile'' of
      (st', evs) \<Rightarrow>
        step st' = Contact \<and> metrics st' = Some fallback_on_error \<and>
        map (\<lambda>c. rq_metrics (i_request c)) (calls evs) =
          [fallback_on_error, fallback_on_error, fallback_on_error])"
  using landmarks_unavailable_fallback[where e = offline_env and cap = "render capture_state"
      and st = capture_state and rest = "''rest''" and smile = "''smile''"
      and optimizedRest = "''jpeg:rest''" and optimizedSmile = "''jpeg:smile''"
      and smileImg = "(1024, 768)" and restImg = "(1024, 768)"]
  by (simp add: capture_state_idle offline_optimized offline_fields offline_handled the_call_def
      offline_request_def fallbacks_equal)

text \<open>
  Claim C9: when the simulation result has a non-empty simulated image, the handler
  overwrites the smiling image of the state with it, and sets the ideal image to the
  result's ideal image when that is present and non-empty and to the simulated image
  otherwise; in particular to the simulated image when the result has no ideal image.
\<close>

theorem simulated_image_replaces_smile:
  assumes "\<not> c_isProcessing cap"
      and "pipeline e rest smile = Inr out"
      and "o_simulationResult out = Some d"
      and "p_simulatedImage d = Some img"
      and "img \<noteq> []"
  shows "case handleCapture e cap st rest smile of (st', evs) \<Rightarrow>
           smileImage st' = img \<and>
           idealImage st' = (if truthy (p_idealImage d) then the (p_idealImage d) else img) \<and>
           (p_idealImage d = None \<longrightarrow> idealImage st' = img) \<and>
           simulationData st' =
             Some \<lparr> facialAnalysis = p_facialAnalysis d, qualityScore = p_qualityScore d,
                    warnings = p_warnings d \<rparr> \<and>
           step st' = Contact"
  using assms(3-5)
  by (simp add: handled_ok[OF assms(1,2)] processSimulationResult_def has_simulatedImage_def
      truthy_def Let_def)

text \<open>A remote function that answers with an image and no ideal image.\<close>

theorem simulated_image_replaces_smile_witness:
  "case handleCapture online_env (render capture_state) capture_state ''rest'' ''smile'' of
     (st', evs) \<Rightarrow>
       smileImage st' = ''simulated'' \<and> idealImage st' = ''simulated'' \<and>
       p_idealImage image_only = None \<and> step st' = Contact"
  using simulated_image_replaces_smile[OF capture_state_idle online_pipeline, of image_only "''simulated''"
      capture_state]
  by (auto simp: image_only_def truthy_def split: prod.splits)

text \<open>
  Claim C8 says that after the third consecutive fatal failure on the same two photos
  a terminal notice replaces the retry action. The retry action calls the closure
  that raised the toast, and that closure tests the retry counter it captured, which
  \<open>setRetryCount\<close> does not change. With two photos that do not decode, submitted on
  a fresh state and retried through the action each time: the third failure leaves
  the counter of the state at 2 and shows the error toast with the retry action again,
  and so does the fourth, with the counter at 3. The step is the capture step.
\<close>

theorem third_failure_still_offers_retry:
  "case handleCapture undecodable_env (render capture_state) capture_state ''rest'' ''smile'' of
     (s1, ev1) \<Rightarrow>
   case click undecodable_env first_retry s1 of (s2, ev2) \<Rightarrow>
   case click undecodable_env first_retry s2 of (s3, ev3) \<Rightarrow>
   case click undecodable_env first_retry s3 of (s4, ev4) \<Rightarrow>
     offered ev1 = [first_retry] \<and> offered ev2 = [first_retry] \<and>
     retryCount s3 = 2 \<and> step s3 = Capture \<and>
     toasts ev3 = [(Failure, ErrorWith ''Error desconocido'')] \<and>
     offered ev3 = [first_retry] \<and>
     retryCount s4 = 3 \<and>
     toasts ev4 = [(Failure, ErrorWith ''Error desconocido'')] \<and>
     offered ev4 = [first_retry]"
  by (simp add: first_retry_def click_def undecodable_handled capture_state_idle)
     (simp add: render_def capture_state_def onStart_def initial_state_def)

text \<open>
  Claim C10: \<open>resetApplication\<close> sets the retry counter to 0 and nothing else does:
  \<open>handleCapture\<close> leaves it as it is on every path (a completed run, a failed run
  below or at the cap, any photo pair), and so do the contact submission and the
  start of capturing; the retry action adds one. So the budget is shared: a submission
  of any photo pair on a state whose counter has reached 2, failing for any cause,
  gets the terminal notice and no retry action.
\<close>

theorem retryCount_reset_only_by_resetApplication:
  "retryCount (resetApplication st) = 0 \<and>
   retryCount (fst (handleCapture e cap st rest smile)) = retryCount st \<and>
   retryCount (fst (handleContactSubmit contact st)) = retryCount st \<and>
   retryCount (onStart st) = retryCount st \<and>
   retryCount (fst (click e (Retry cap rest smile) st)) = retryCount st + 1 \<and>
   (\<not> isProcessing st \<and> 2 \<le> retryCount st \<and> isl (pipeline e rest smile) \<longrightarrow>
      toasts (snd (handleCapture e (render st) st rest smile)) = [(Failure, GiveUp)] \<and>
      offered (snd (handleCapture e (render st) st rest smile)) = [])"
proof -
  have keep: "retryCount (fst (handleCapture e' cap' st' rest' smile')) = retryCount st'"
    for e' cap' st' rest' smile'
    by (simp add: handleCapture_def processSimulationResult_def Let_def
        split: sum.splits prod.splits)
  have giveup: "toasts (snd (handleCapture e (render st) st rest smile)) = [(Failure, GiveUp)] \<and>
      offered (snd (handleCapture e (render st) st rest smile)) = []"
    if "\<not> isProcessing st" "2 \<le> retryCount st" "isl (pipeline e rest smile)"
  proof -
    from that(3) obtain err where "pipeline e rest smile = Inl err"
      by (cases "pipeline e rest smile") simp_all
    with that(1,2) show ?thesis
      by (simp add: handled_error render_def)
  qed
  show ?thesis
    using giveup
    by (simp add: keep click_def resetApplication_def handleContactSubmit_def onStart_def)
qed

text \<open>Another photo pair, submitted when the counter is 2; then the reset.\<close>

theorem retryCount_reset_only_by_resetApplication_witness:
  "\<not> isProcessing spent_state \<and> 2 \<le> retryCount spent_state \<and>
   isl (pipeline undecodable_env ''other rest'' ''other smile'') \<and>
   toasts (snd (handleCapture undecodable_env (render spent_state) spent_state
                  ''other rest'' ''other smile'')) = [(Failure, GiveUp)] \<and>
   retryCount (fst (handleCapture undecodable_env (render spent_state) spent_state
                  ''other rest'' ''other smile'')) = 2 \<and>
   retryCount (resetApplication spent_state) = 0"
  using retryCount_reset_only_by_resetApplication[where st = spent_state
      and e = undecodable_env and cap = "render spent_state" and rest = "''other rest''"
      and smile = "''other smile''"]
  by (simp add: spent_state_def capture_state_def onStart_def initial_state_def
      undecodable_pipeline)

end
